theory Spec2Isabelle
  imports Complex_Main
begin

section \<open>Numbers\<close>

text \<open>
  A Python float is an IEEE double. The model writes a double as the real it is; a real
  that is not a double stands for the double nearest to it, as a decimal literal does
  in Python. A float that is only stored, rounded or printed is kept as that real;
  where the program compares the result of float arithmetic (lines 138 and 139 of
  \<^verbatim>\<open>temperature_station.py\<close>), the doubles are taken and the result is rounded
  as the machine rounds it. \<open>round(x, 2)\<close> rounds to the nearest multiple of one
  hundredth and resolves a tie towards the even neighbour.
\<close>

definition round_half_even :: "real \<Rightarrow> int" where
  "round_half_even y =
     (let f = \<lfloor>y\<rfloor>; d = y - of_int f
      in if d < 1 / 2 then f
         else if 1 / 2 < d then f + 1
         else if even f then f else f + 1)"

definition py_round2 :: "real \<Rightarrow> real" where
  "py_round2 x = of_int (round_half_even (x * 100)) / 100"

text \<open>
  The double nearest to a real, ties to the even mantissa: \<open>exponent x\<close> is the integer
  \<open>e\<close> with \<open>2^e \<le> \<bar>x\<bar> < 2^(e + 1)\<close>, and the result is the multiple of
  \<open>2^(e - 52)\<close> nearest to \<open>x\<close>, which has a mantissa of 53 bits. Overflow and
  subnormal numbers are left out: temperatures and thresholds are far from both.
  The subtraction of two floats is the double nearest to the exact difference of the
  two doubles.
\<close>

fun bit_length :: "nat \<Rightarrow> nat" where
  "bit_length n = (if n = 0 then 0 else Suc (bit_length (n div 2)))"

declare bit_length.simps [simp del]

definition exponent :: "real \<Rightarrow> int" where
  "exponent x =
     (if 1 \<le> \<bar>x\<bar> then int (bit_length (nat \<lfloor>\<bar>x\<bar>\<rfloor>)) - 1
      else - int (bit_length (nat (\<lceil>1 / \<bar>x\<bar>\<rceil> - 1))))"

definition pow2 :: "int \<Rightarrow> real" where
  "pow2 k = (if 0 \<le> k then 2 ^ nat k else 1 / 2 ^ nat (- k))"

definition to_double :: "real \<Rightarrow> real" where
  "to_double x =
     (if x = 0 then 0
      else (let ulp = pow2 (exponent x - 52)
            in of_int (round_half_even (x / ulp)) * ulp))"

definition float_sub :: "real \<Rightarrow> real \<Rightarrow> real" where
  "float_sub a b = to_double (to_double a - to_double b)"

section \<open>The Modbus sensor (real_temperature_sensor.py)\<close>

text \<open>
  The handle \<open>minimalmodbus.Instrument(com_port, slave_address)\<close>. The serial line is
  outside the program: each call that touches it takes the outcome of that call as an
  argument. A register read is a function of the register address that either raises
  (\<open>Inl\<close> of the exception's message) or returns the scaled value (\<open>Inr\<close>).
\<close>

datatype instrument = Instrument string int

type_synonym register_read = "int \<Rightarrow> string + real"

record sensor =
  com_port :: string
  slave_address :: int
  baudrate :: int
  timeout :: real
  instrument :: "instrument option"
  is_connected :: bool
  last_error :: "string option"

definition RealTemperatureSensor :: "string \<Rightarrow> sensor" where
  "RealTemperatureSensor port =
     \<lparr>com_port = port, slave_address = 1, baudrate = 9600, timeout = 1,
      instrument = None, is_connected = False, last_error = None\<rparr>"

text \<open>
  What the line does during one call of \<open>read_temperature\<close>: \<open>open_port\<close> is the
  exception raised while the instrument is created and configured (\<open>None\<close> when that
  succeeds), \<open>test_read\<close> answers the connection test of \<open>setup_sensor\<close> and
  \<open>read_register\<close> answers the read of the channel.
\<close>

record read_io =
  open_port :: "string option"
  test_read :: register_read
  read_register :: register_read

definition setup_sensor :: "sensor \<Rightarrow> string option \<Rightarrow> register_read \<Rightarrow> bool \<times> sensor" where
  "setup_sensor s opn rd =
     (case opn of
        Some e \<Rightarrow> (False, s\<lparr>is_connected := False, last_error := Some e\<rparr>)
      | None \<Rightarrow>
          (let s1 = s\<lparr>instrument := Some (Instrument (com_port s) (slave_address s))\<rparr>
           in case rd 0 of
                Inl e \<Rightarrow> (False, s1\<lparr>is_connected := False, last_error := Some e\<rparr>)
              | Inr v \<Rightarrow> (True, s1\<lparr>is_connected := True, last_error := None\<rparr>)))"

definition read_temperature :: "sensor \<Rightarrow> read_io \<Rightarrow> int \<Rightarrow> real option \<times> sensor" where
  "read_temperature s io channel =
     (let (ok, s1) =
            (if \<not> is_connected s \<or> instrument s = None
             then setup_sensor s (open_port io) (test_read io)
             else (True, s))
      in if \<not> ok then (None, s1)
         else (let register_address = channel - 1
               in case read_register io register_address of
                    Inr temperature \<Rightarrow> (Some temperature, s1\<lparr>last_error := None\<rparr>)
                  | Inl e \<Rightarrow> (None, s1\<lparr>last_error := Some e, is_connected := False\<rparr>)))"

record temperatures =
  channel1 :: "real option"
  channel2 :: "real option"

definition read_all_temperatures ::
  "sensor \<Rightarrow> read_io \<Rightarrow> read_io \<Rightarrow> temperatures \<times> sensor" where
  "read_all_temperatures s io1 io2 =
     (let (t1, s1) = read_temperature s io1 1;
          (t2, s2) = read_temperature s1 io2 2
      in (\<lparr>channel1 = t1, channel2 = t2\<rparr>, s2))"

record sensor_status =
  sensor_is_connected :: bool
  sensor_com_port :: string
  sensor_slave_address :: int
  sensor_last_error :: "string option"

definition sensor_get_status :: "sensor \<Rightarrow> sensor_status" where
  "sensor_get_status s =
     \<lparr>sensor_is_connected = is_connected s, sensor_com_port = com_port s,
      sensor_slave_address = slave_address s, sensor_last_error = last_error s\<rparr>"

definition disconnect :: "sensor \<Rightarrow> sensor" where
  "disconnect s = s\<lparr>is_connected := False, instrument := None\<rparr>"

section \<open>The station (temperature_station.py)\<close>

record datetime =
  year :: nat
  month :: nat
  day :: nat
  hour :: nat
  minute :: nat
  second :: nat

record reading =
  timestamp :: datetime
  channel1_temperature :: real
  channel2_temperature :: real

text \<open>
  \<open>thread\<close> is the thread object of the polling task: \<open>None\<close> before the first
  start, then the serial number of the thread started last.
\<close>

record station =
  station_id :: int
  name :: string
  threshold_difference :: real
  use_real_sensor :: bool
  is_running :: bool
  thread :: "nat option"
  current_temperatures :: temperatures
  temperature_history :: "reading list"
  real_sensor :: "sensor option"
  sensor_connection_error :: "string option"

definition TemperatureStation ::
  "int \<Rightarrow> string \<Rightarrow> real \<Rightarrow> bool \<Rightarrow> string \<Rightarrow> string option \<Rightarrow> register_read \<Rightarrow> station" where
  "TemperatureStation sid nm thr use_real port opn rd =
     (let st = \<lparr>station_id = sid, name = nm, threshold_difference = thr,
                 use_real_sensor = use_real, is_running = False, thread = None,
                 current_temperatures = \<lparr>channel1 = None, channel2 = None\<rparr>,
                 temperature_history = [], real_sensor = None,
                 sensor_connection_error = None\<rparr>
      in if use_real
         then (let (ok, s) = setup_sensor (RealTemperatureSensor port) opn rd
               in st\<lparr>real_sensor := Some s,
                     sensor_connection_error := (if \<not> ok then last_error s else None)\<rparr>)
         else st)"

definition start_detection :: "station \<Rightarrow> station" where
  "start_detection st =
     (if \<not> is_running st
      then st\<lparr>temperature_history := [],
               current_temperatures := \<lparr>channel1 = None, channel2 = None\<rparr>,
               is_running := True,
               thread := Some (case thread st of None \<Rightarrow> 0 | Some k \<Rightarrow> Suc k)\<rparr>
      else st)"

definition stop_detection :: "station \<Rightarrow> station" where
  "stop_detection st =
     st\<lparr>is_running := False, real_sensor := map_option disconnect (real_sensor st)\<rparr>"

text \<open>
  \<open>random.uniform(a, b)\<close> is outside the program: the two draws of a cycle are
  arguments of the generator.
\<close>

definition get_simulated_temperatures :: "real \<Rightarrow> real \<Rightarrow> temperatures" where
  "get_simulated_temperatures u1 u2 =
     (let base_temp1 = 5; base_temp2 = 24
      in \<lparr>channel1 = Some (base_temp1 + u1), channel2 = Some (base_temp2 + u2)\<rparr>)"

text \<open>Everything one iteration of the polling loop takes from outside.\<close>

record cycle_io =
  io_channel1 :: read_io
  io_channel2 :: read_io
  uniform1 :: real
  uniform2 :: real
  now :: datetime

text \<open>Lines 65 to 83 of the loop body: where the temperatures of the cycle come from.\<close>

definition acquire :: "station \<Rightarrow> cycle_io \<Rightarrow> temperatures \<times> station" where
  "acquire st io =
     (case (use_real_sensor st, real_sensor st) of
        (True, Some sensor) \<Rightarrow>
          (let (temps, sensor') = read_all_temperatures sensor (io_channel1 io) (io_channel2 io);
               sensor_status = sensor_get_status sensor';
               st1 = st\<lparr>real_sensor := Some sensor',
                        sensor_connection_error :=
                          (if \<not> sensor_is_connected sensor_status
                           then sensor_last_error sensor_status else None)\<rparr>
           in if channel1 temps = None \<or> channel2 temps = None
              then (get_simulated_temperatures (uniform1 io) (uniform2 io), st1)
              else (temps, st1))
      | _ \<Rightarrow> (get_simulated_temperatures (uniform1 io) (uniform2 io), st))"

text \<open>
  Lines 86 to 101: under the lock, the rounded pair becomes the current temperatures, a
  reading is appended, and \<open>pop(0)\<close> removes the head once the list is longer than 100.
\<close>

definition update_history :: "station \<Rightarrow> temperatures \<Rightarrow> datetime \<Rightarrow> station" where
  "update_history st temps ts =
     (case (channel1 temps, channel2 temps) of
        (Some c1, Some c2) \<Rightarrow>
          (let cur = \<lparr>channel1 = Some (py_round2 c1), channel2 = Some (py_round2 c2)\<rparr>;
               appended = temperature_history st @
                 [\<lparr>timestamp = ts, channel1_temperature = py_round2 c1,
                   channel2_temperature = py_round2 c2\<rparr>]
           in st\<lparr>current_temperatures := cur,
                 temperature_history :=
                   (if length appended > 100 then tl appended else appended)\<rparr>)
      | _ \<Rightarrow> st)"

definition detection_cycle :: "station \<Rightarrow> cycle_io \<Rightarrow> station" where
  "detection_cycle st io = (let (temps, st1) = acquire st io in update_history st1 temps (now io))"

text \<open>
  The loop runs while \<open>is_running\<close> holds; the list holds the inputs of the iterations
  that take place before the loop is observed.
\<close>

fun detection_loop :: "station \<Rightarrow> cycle_io list \<Rightarrow> station" where
  "detection_loop st [] = st"
| "detection_loop st (io # ios) =
     (if is_running st then detection_loop (detection_cycle st io) ios else st)"

text \<open>
  The polling threads of a station. \<open>tasks\<close> counts the threads that are alive. A start
  on a stopped station starts one more (line 46). A stop clears the flag and waits
  for the thread at most one second (\<open>join(timeout=1)\<close>); it ends no thread. A thread
  ends when it evaluates the loop condition of line 64 and finds the flag cleared; a
  thread that is alive runs the loop body. A stop that is followed by a start before
  the loop test of the old thread is a join that timed out.
\<close>

datatype event = Start | Stop | Loop_test | Poll cycle_io

record system =
  station_of :: station
  tasks :: nat

fun step :: "system \<Rightarrow> event \<Rightarrow> system" where
  "step s Start =
     (if \<not> is_running (station_of s)
      then s\<lparr>station_of := start_detection (station_of s), tasks := Suc (tasks s)\<rparr>
      else s)"
| "step s Stop = s\<lparr>station_of := stop_detection (station_of s)\<rparr>"
| "step s Loop_test =
     (if 0 < tasks s \<and> \<not> is_running (station_of s) then s\<lparr>tasks := tasks s - 1\<rparr> else s)"
| "step s (Poll io) =
     (if 0 < tasks s then s\<lparr>station_of := detection_cycle (station_of s) io\<rparr> else s)"

definition run :: "system \<Rightarrow> event list \<Rightarrow> system" where
  "run s es = foldl step s es"

text \<open>
  A sequence of events is orderly from a state when each of its starts finds the
  station running or no polling thread alive: no start falls between a stop and the
  end of the thread that the stop was for.
\<close>

fun orderly :: "system \<Rightarrow> event list \<Rightarrow> bool" where
  "orderly s [] = True"
| "orderly s (e # es) =
     ((case e of Start \<Rightarrow> is_running (station_of s) \<or> tasks s = 0 | _ \<Rightarrow> True)
      \<and> orderly (step s e) es)"

section \<open>Status snapshot\<close>

text \<open>
  The dictionary returned by \<open>get_status\<close>, one field per key. A key whose value can be
  Python's \<open>None\<close> has an option type.
\<close>

record status =
  status_station_id :: int
  status_name :: string
  status_is_running :: bool
  status_current_temperatures :: temperatures
  readings_count :: nat
  status_threshold_difference :: real
  current_difference :: "real option"
  is_abnormal :: "bool option"
  status_use_real_sensor :: bool
  sensor_connected :: "bool option"
  sensor_error :: "string option"

definition get_current_temperatures :: "station \<Rightarrow> temperatures" where
  "get_current_temperatures st = current_temperatures st"

definition get_temperature_history :: "station \<Rightarrow> reading list" where
  "get_temperature_history st = temperature_history st"

text \<open>
  \<open>sensor_status\<close> starts as the empty dictionary (\<open>None\<close> here), whose
  \<open>get('is_connected', False)\<close> is \<open>False\<close>. The difference of line 138 is a
  subtraction of floats, and line 139 compares it with the threshold, a float.
\<close>

definition get_status :: "station \<Rightarrow> status" where
  "get_status st =
     (let current_temps = get_current_temperatures st;
          sensor_status =
            (case (use_real_sensor st, real_sensor st) of
               (True, Some sensor) \<Rightarrow> Some (sensor_get_status sensor)
             | _ \<Rightarrow> None);
          (temperature_difference, abnormal) =
            (case (channel1 current_temps, channel2 current_temps) of
               (Some c1, Some c2) \<Rightarrow>
                 (Some (float_sub c2 c1),
                  float_sub c2 c1 < to_double (threshold_difference st))
             | _ \<Rightarrow> (None, False))
      in \<lparr>status_station_id = station_id st,
          status_name = name st,
          status_is_running = is_running st,
          status_current_temperatures = current_temps,
          readings_count = length (temperature_history st),
          status_threshold_difference = threshold_difference st,
          current_difference = temperature_difference,
          is_abnormal = Some abnormal,
          status_use_real_sensor = use_real_sensor st,
          sensor_connected =
            (if use_real_sensor st
             then Some (case sensor_status of None \<Rightarrow> False
                        | Some ss \<Rightarrow> sensor_is_connected ss)
             else None),
          sensor_error = sensor_connection_error st\<rparr>)"

section \<open>CSV export\<close>

text \<open>
  \<open>str\<close> of an integer, and the zero-padded fields of
  \<open>strftime('%Y-%m-%d %H:%M:%S')\<close>.
\<close>

definition digit_char :: "nat \<Rightarrow> char" where
  "digit_char d = ''0123456789'' ! d"

fun str_nat :: "nat \<Rightarrow> string" where
  "str_nat n = (if n < 10 then [digit_char n] else str_nat (n div 10) @ [digit_char (n mod 10)])"

declare str_nat.simps [simp del]

definition str_int :: "int \<Rightarrow> string" where
  "str_int i = (if i < 0 then ''-'' @ str_nat (nat (- i)) else str_nat (nat i))"

definition zfill :: "nat \<Rightarrow> string \<Rightarrow> string" where
  "zfill w s = replicate (w - length s) (CHR ''0'') @ s"

definition strftime :: "datetime \<Rightarrow> string" where
  "strftime dt =
     zfill 4 (str_nat (year dt)) @ ''-'' @ zfill 2 (str_nat (month dt)) @ ''-'' @
     zfill 2 (str_nat (day dt)) @ '' '' @ zfill 2 (str_nat (hour dt)) @ '':'' @
     zfill 2 (str_nat (minute dt)) @ '':'' @ zfill 2 (str_nat (second dt))"

text \<open>
  The writer turns a float into text with \<open>repr\<close>: the shortest decimal that reads back
  as the same float, with at least one digit after the point. The history only holds
  values that \<open>round(x, 2)\<close> returned, and for such a value (of magnitude below
  \<open>10^16\<close>) that decimal is its count of hundredths with a trailing zero of the
  fraction dropped. \<open>float_repr\<close> is \<open>repr\<close> on those values.
\<close>

definition float_repr :: "real \<Rightarrow> string" where
  "float_repr x =
     (let c = nat \<lfloor>\<bar>x\<bar> * 100\<rfloor>; whole = c div 100; f = c mod 100
      in (if x < 0 then ''-'' else []) @ str_nat whole @ ''.'' @
         (if f mod 10 = 0 then [digit_char (f div 10)]
          else [digit_char (f div 10), digit_char (f mod 10)]))"

text \<open>
  \<open>csv.writer\<close> with the default dialect: fields joined by a comma, a field holding a
  comma, a double quote, a carriage return or a line feed is wrapped in double quotes
  with its double quotes doubled, and every row ends with carriage return and line feed.
\<close>

datatype csv_value = CsvStr string | CsvFloat real | CsvInt int

fun csv_str :: "csv_value \<Rightarrow> string" where
  "csv_str (CsvStr s) = s"
| "csv_str (CsvFloat x) = float_repr x"
| "csv_str (CsvInt i) = str_int i"

definition csv_special :: "char \<Rightarrow> bool" where
  "csv_special c = (c = CHR '','' \<or> c = CHR 0x22 \<or> c = CHR 0x0D \<or> c = CHR 0x0A)"

definition csv_field :: "string \<Rightarrow> string" where
  "csv_field s =
     (if list_ex csv_special s
      then [CHR 0x22] @ concat (map (\<lambda>c. if c = CHR 0x22 then [c, c] else [c]) s) @ [CHR 0x22]
      else s)"

fun join :: "string \<Rightarrow> string list \<Rightarrow> string" where
  "join sep [] = []"
| "join sep [x] = x"
| "join sep (x # y # ys) = x @ sep @ join sep (y # ys)"

definition writerow :: "string \<Rightarrow> csv_value list \<Rightarrow> string" where
  "writerow output row =
     output @ join '','' (map (\<lambda>v. csv_field (csv_str v)) row) @ [CHR 0x0D, CHR 0x0A]"

definition export_to_csv :: "station \<Rightarrow> string" where
  "export_to_csv st =
     (let output = writerow []
            [CsvStr ''Timestamp'', CsvStr ''Channel1_Temperature_Celsius'',
             CsvStr ''Channel2_Temperature_Celsius'', CsvStr ''Station_Name'',
             CsvStr ''Station_ID'']
      in foldl (\<lambda>out reading.
                  writerow out
                    [CsvStr (strftime (timestamp reading)),
                     CsvFloat (channel1_temperature reading),
                     CsvFloat (channel2_temperature reading),
                     CsvStr (name st),
                     CsvInt (station_id st)])
           output (temperature_history st))"

section \<open>Notions used to state the properties\<close>

text \<open>The reading that one polling cycle appends, as a list of at most one element.\<close>

definition cycle_reading :: "station \<Rightarrow> cycle_io \<Rightarrow> reading list" where
  "cycle_reading st io =
     (let (temps, st1) = acquire st io
      in case (channel1 temps, channel2 temps) of
           (Some c1, Some c2) \<Rightarrow>
             [\<lparr>timestamp = now io, channel1_temperature = py_round2 c1,
               channel2_temperature = py_round2 c2\<rparr>]
         | _ \<Rightarrow> [])"

text \<open>All readings that a run of the loop appends, oldest first.\<close>

fun appended_readings :: "station \<Rightarrow> cycle_io list \<Rightarrow> reading list" where
  "appended_readings st [] = []"
| "appended_readings st (io # ios) =
     (if is_running st
      then cycle_reading st io @ appended_readings (detection_cycle st io) ios
      else [])"

text \<open>The header row and the line terminator of the exported file.\<close>

definition csv_header :: string where
  "csv_header =
     ''Timestamp,Channel1_Temperature_Celsius,Channel2_Temperature_Celsius,Station_Name,Station_ID''"

definition crlf :: string where
  "crlf = [CHR 0x0D, CHR 0x0A]"

text \<open>
  A capture time as \<open>datetime.now()\<close> returns it, with a year of four digits, and the
  shape \<open>YYYY-MM-DD HH:MM:SS\<close> of a text.
\<close>

definition valid_datetime :: "datetime \<Rightarrow> bool" where
  "valid_datetime dt =
     (1000 \<le> year dt \<and> year dt \<le> 9999 \<and> 1 \<le> month dt \<and> month dt \<le> 12 \<and>
      1 \<le> day dt \<and> day dt \<le> 31 \<and> hour dt < 24 \<and> minute dt < 60 \<and> second dt < 60)"

definition is_digit :: "char \<Rightarrow> bool" where
  "is_digit c = (c \<in> set ''0123456789'')"

definition timestamp_shape :: "string \<Rightarrow> bool" where
  "timestamp_shape s =
     (length s = 19 \<and> s ! 4 = CHR ''-'' \<and> s ! 7 = CHR ''-'' \<and> s ! 10 = CHR '' '' \<and>
      s ! 13 = CHR '':'' \<and> s ! 16 = CHR '':'' \<and>
      list_all (\<lambda>i. is_digit (s ! i)) [0, 1, 2, 3, 5, 6, 8, 9, 11, 12, 14, 15, 17, 18])"

text \<open>The number of characters after the decimal point of a text.\<close>

definition decimals :: "string \<Rightarrow> nat" where
  "decimals s = length (dropWhile (\<lambda>c. c \<noteq> CHR ''.'') s) - 1"

section \<open>Concrete stations and inputs\<close>

definition sensor0 :: sensor where
  "sensor0 = (RealTemperatureSensor ''COM4'')
     \<lparr>instrument := Some (Instrument ''COM4'' 1), is_connected := True\<rparr>"

definition io_fail :: read_io where
  "io_fail = \<lparr>open_port = None, test_read = (\<lambda>a. Inr 20),
              read_register = (\<lambda>a. Inl ''timeout'')\<rparr>"

definition io_ok :: read_io where
  "io_ok = \<lparr>open_port = None, test_read = (\<lambda>a. Inr 20),
            read_register = (\<lambda>a. if a = 0 then Inr 5 else Inr 15)\<rparr>"

definition datetime0 :: datetime where
  "datetime0 = \<lparr>year = 2024, month = 1, day = 2, hour = 3, minute = 4, second = 5\<rparr>"

definition reading0 :: reading where
  "reading0 = \<lparr>timestamp = datetime0, channel1_temperature = 5,
               channel2_temperature = 14.99\<rparr>"

definition station0 :: station where
  "station0 = TemperatureStation 1 ''Temperature Station'' 10 False ''COM4'' None (\<lambda>a. Inr 20)"

definition station1 :: station where
  "station1 = station0\<lparr>temperature_history := [reading0],
     current_temperatures := \<lparr>channel1 = Some 5, channel2 = Some 14.99\<rparr>\<rparr>"

definition station_cold :: station where
  "station_cold = station0\<lparr>current_temperatures :=
     \<lparr>channel1 = Some (to_double (- 17.7)), channel2 = Some (to_double (- 7.7))\<rparr>\<rparr>"

definition station_even :: station where
  "station_even = station0\<lparr>current_temperatures :=
     \<lparr>channel1 = Some 6.4, channel2 = Some 16.4\<rparr>\<rparr>"

definition system0 :: system where
  "system0 = \<lparr>station_of = station0, tasks = 0\<rparr>"

definition station_full :: station where
  "station_full = station0\<lparr>is_running := True, temperature_history := replicate 100 reading0\<rparr>"

definition station_hw :: station where
  "station_hw = TemperatureStation 1 ''Temperature Station'' 10 True ''COM4'' None (\<lambda>a. Inr 20)"

definition cycle_sim :: cycle_io where
  "cycle_sim = \<lparr>io_channel1 = io_fail, io_channel2 = io_fail, uniform1 = 8, uniform2 = - 4,
                now = datetime0\<rparr>"

definition cycle_reconnect :: cycle_io where
  "cycle_reconnect = \<lparr>io_channel1 = io_fail, io_channel2 = io_ok, uniform1 = 0, uniform2 = 0,
                      now = datetime0\<rparr>"

definition cycle_down :: cycle_io where
  "cycle_down = \<lparr>io_channel1 = io_ok, io_channel2 = io_fail, uniform1 = 0, uniform2 = 0,
                 now = datetime0\<rparr>"

definition cycle_ok :: cycle_io where
  "cycle_ok = \<lparr>io_channel1 = io_ok, io_channel2 = io_ok, uniform1 = 0, uniform2 = 0,
               now = datetime0\<rparr>"

section \<open>The status snapshot, field by field\<close>

lemma get_status_current_difference:
  "current_difference (get_status st) =
     (case channel1 (current_temperatures st) of None \<Rightarrow> None
      | Some c1 \<Rightarrow> (case channel2 (current_temperatures st) of None \<Rightarrow> None
                    | Some c2 \<Rightarrow> Some (float_sub c2 c1)))"
  by (simp add: get_status_def get_current_temperatures_def Let_def split: option.splits)

lemma get_status_is_abnormal:
  "is_abnormal (get_status st) =
     (case channel1 (current_temperatures st) of None \<Rightarrow> Some False
      | Some c1 \<Rightarrow> (case channel2 (current_temperatures st) of None \<Rightarrow> Some False
                    | Some c2 \<Rightarrow> Some (float_sub c2 c1 < to_double (threshold_difference st))))"
  by (simp add: get_status_def get_current_temperatures_def Let_def split: option.splits)

lemma get_status_sensor_connected:
  "sensor_connected (get_status st) =
     (if use_real_sensor st
      then Some (case real_sensor st of None \<Rightarrow> False | Some s \<Rightarrow> is_connected s)
      else None)"
  by (simp add: get_status_def sensor_get_status_def Let_def split: option.splits prod.splits)

lemma get_status_sensor_error:
  "sensor_error (get_status st) = sensor_connection_error st"
  by (simp add: get_status_def Let_def split: option.splits prod.splits)

section \<open>Reading a channel of the sensor\<close>

text \<open>
  Claim C9. When the register read of \<open>read_temperature\<close> is reached (the sensor was
  connected, or the reconnect succeeded) and that read fails, the call returns absent,
  leaves the sensor disconnected and keeps the message of the failure in \<open>last_error\<close>;
  nothing is raised, the failure is a returned value. The read of channel \<open>n\<close> asks for
  register \<open>n - 1\<close>: the outcome of the call depends on the register read only through
  its answer at that address.
\<close>

theorem read_temperature_io_failure:
  assumes "(is_connected s \<and> instrument s \<noteq> None) \<or>
           fst (setup_sensor s (open_port io) (test_read io))"
    and "read_register io (channel - 1) = Inl msg"
  shows "fst (read_temperature s io channel) = None
       \<and> is_connected (snd (read_temperature s io channel)) = False
       \<and> last_error (snd (read_temperature s io channel)) = Some msg
       \<and> (\<forall>io'. open_port io' = open_port io \<and> test_read io' = test_read io
              \<and> read_register io' (channel - 1) = read_register io (channel - 1)
            \<longrightarrow> read_temperature s io' channel = read_temperature s io channel)"
proof -
  have failed: "fst (read_temperature s io channel) = None
       \<and> is_connected (snd (read_temperature s io channel)) = False
       \<and> last_error (snd (read_temperature s io channel)) = Some msg"
    using assms by (auto simp add: read_temperature_def split: prod.splits)
  have same: "read_temperature s io' channel = read_temperature s io channel"
    if "open_port io' = open_port io \<and> test_read io' = test_read io
        \<and> read_register io' (channel - 1) = read_register io (channel - 1)" for io'
    using that
    by (cases "setup_sensor s (open_port io) (test_read io)")
       (simp add: read_temperature_def Let_def)
  from failed same show ?thesis by blast
qed

theorem read_temperature_io_failure_witness:
  "is_connected sensor0 \<and> instrument sensor0 \<noteq> None
   \<and> read_register io_fail (1 - 1) = Inl ''timeout''
   \<and> fst (read_temperature sensor0 io_fail 1) = None
   \<and> is_connected (snd (read_temperature sensor0 io_fail 1)) = False
   \<and> last_error (snd (read_temperature sensor0 io_fail 1)) = Some ''timeout''"
proof -
  have reached: "(is_connected sensor0 \<and> instrument sensor0 \<noteq> None) \<or>
      fst (setup_sensor sensor0 (open_port io_fail) (test_read io_fail))"
    by (simp add: sensor0_def RealTemperatureSensor_def)
  have fails: "read_register io_fail (1 - 1) = Inl ''timeout''"
    by (simp add: io_fail_def)
  note outcome = read_temperature_io_failure [OF reached fails]
  from outcome have "fst (read_temperature sensor0 io_fail 1) = None" by (rule conjunct1)
  moreover from outcome
  have "is_connected (snd (read_temperature sensor0 io_fail 1)) = False"
    by (rule conjunct2 [THEN conjunct1])
  moreover from outcome
  have "last_error (snd (read_temperature sensor0 io_fail 1)) = Some ''timeout''"
    by (rule conjunct2 [THEN conjunct2, THEN conjunct1])
  moreover have "is_connected sensor0 \<and> instrument sensor0 \<noteq> None"
    by (simp add: sensor0_def RealTemperatureSensor_def)
  ultimately show ?thesis using fails by blast
qed

section \<open>The simulated generator\<close>

text \<open>
  Claim C6. With the first draw anywhere in \<open>[-5, 8]\<close> and the second anywhere in
  \<open>[-4, 7]\<close>, the generator returns both channels present, channel 1 in \<open>[0, 13]\<close> and
  channel 2 in \<open>[20, 31]\<close>.
\<close>

theorem simulated_in_range:
  assumes "- 5 \<le> u1" and "u1 \<le> 8" and "- 4 \<le> u2" and "u2 \<le> 7"
  shows "\<exists>c1 c2. get_simulated_temperatures u1 u2 = \<lparr>channel1 = Some c1, channel2 = Some c2\<rparr>
           \<and> 0 \<le> c1 \<and> c1 \<le> 13 \<and> 20 \<le> c2 \<and> c2 \<le> 31"
  using assms by (simp add: get_simulated_temperatures_def)

theorem simulated_in_range_witness:
  "(- 5 :: real) \<le> 8 \<and> (- 4 :: real) \<le> 7
   \<and> (\<exists>c1 c2. get_simulated_temperatures 8 (- 4) = \<lparr>channel1 = Some c1, channel2 = Some c2\<rparr>
         \<and> 0 \<le> c1 \<and> c1 \<le> 13 \<and> 20 \<le> c2 \<and> c2 \<le> 31)"
  using simulated_in_range [of 8 "- 4"] by simp

section \<open>Abnormality\<close>

lemma float_sub_examples:
  "to_double 10 = 10"
  "float_sub (1499 / 100) 5 = 5623870034678907 / 562949953421312"
  "float_sub 15 5 = 10"
  "float_sub (82 / 5) (32 / 5) = 5629499534213119 / 562949953421312"
  by (simp_all add: to_double_def float_sub_def exponent_def pow2_def round_half_even_def
       bit_length.simps Let_def)

lemma to_double_cold:
  "to_double (- 7.7) = - (8669429282688205 / 1125899906842624)"
  "to_double (- 17.7) = - (4982107087778611 / 281474976710656)"
  "to_double (- (8669429282688205 / 1125899906842624)) = - (8669429282688205 / 1125899906842624)"
  "to_double (- (4982107087778611 / 281474976710656)) = - (4982107087778611 / 281474976710656)"
  "float_sub (- (8669429282688205 / 1125899906842624)) (- (4982107087778611 / 281474976710656))
     = 10"
  by (simp_all add: to_double_def float_sub_def exponent_def pow2_def round_half_even_def
       bit_length.simps Let_def)

text \<open>
  Claim C2, as the specification states it: with both current temperatures present,
  the station is abnormal exactly when channel 2 minus channel 1 is below the
  threshold. The station \<open>station_cold\<close> holds the doubles that Python writes
  \<open>-17.7\<close> and \<open>-7.7\<close>, with threshold 10. Channel 2 minus channel 1 is below 10, by
  \<open>2^-50\<close>, yet \<open>get_status\<close> reports normal: the subtraction of line 138 rounds the
  difference to the double 10.0. The claim fails as well when it is read on the
  decimals that the temperatures are rounded to: 6.40 and 16.40 differ by 10 and the
  station that holds them is reported abnormal, the difference of the two doubles
  being 9.999999999999998.
\<close>

theorem abnormal_exact_difference_counterexample:
  "channel1 (current_temperatures station_cold) = Some (- (4982107087778611 / 281474976710656))
   \<and> channel2 (current_temperatures station_cold) = Some (- (8669429282688205 / 1125899906842624))
   \<and> to_double (- (4982107087778611 / 281474976710656)) = - (4982107087778611 / 281474976710656)
   \<and> to_double (- (8669429282688205 / 1125899906842624)) = - (8669429282688205 / 1125899906842624)
   \<and> threshold_difference station_cold = 10
   \<and> - (8669429282688205 / 1125899906842624) - - (4982107087778611 / 281474976710656)
       < threshold_difference station_cold
   \<and> is_abnormal (get_status station_cold) = Some False
   \<and> channel1 (current_temperatures station_even) = Some 6.4
   \<and> channel2 (current_temperatures station_even) = Some 16.4
   \<and> threshold_difference station_even = 10
   \<and> \<not> ((16.4 :: real) - 6.4 < 10)
   \<and> is_abnormal (get_status station_even) = Some True"
proof -
  have cold: "current_temperatures station_cold =
      \<lparr>channel1 = Some (- (4982107087778611 / 281474976710656)),
       channel2 = Some (- (8669429282688205 / 1125899906842624))\<rparr>"
    by (simp add: station_cold_def to_double_cold)
  have thr_cold: "threshold_difference station_cold = 10"
    by (simp add: station_cold_def station0_def TemperatureStation_def)
  have even: "current_temperatures station_even = \<lparr>channel1 = Some 6.4, channel2 = Some 16.4\<rparr>"
    by (simp add: station_even_def)
  have thr_even: "threshold_difference station_even = 10"
    by (simp add: station_even_def station0_def TemperatureStation_def)
  have normal: "is_abnormal (get_status station_cold) = Some False"
    by (simp add: get_status_is_abnormal cold thr_cold to_double_cold float_sub_examples)
  have abnormal: "is_abnormal (get_status station_even) = Some True"
    by (simp add: get_status_is_abnormal even thr_even float_sub_examples)
  have below: "- (8669429282688205 / 1125899906842624) - - (4982107087778611 / 281474976710656)
      < threshold_difference station_cold"
    by (simp add: thr_cold)
  have equal: "\<not> ((16.4 :: real) - 6.4 < 10)" by simp
  from cold thr_cold even thr_even normal abnormal below equal to_double_cold(3,4)
  show ?thesis by simp
qed

text \<open>
  Claim C2, amended. With both current temperatures present, \<open>get_status\<close> reports
  abnormal exactly when the difference that Python computes, the double nearest to
  channel 2 minus channel 1, is below the threshold, and reports that double as the
  current difference. A computed difference equal to the threshold is normal. With
  threshold 10 and channel 1 at 5.00, channel 2 at 14.99 is abnormal and channel 2 at
  15.00 is normal.
\<close>

theorem abnormal_iff_float_sub_below_threshold:
  assumes "channel1 (current_temperatures st) = Some c1"
    and "channel2 (current_temperatures st) = Some c2"
  shows "is_abnormal (get_status st)
           = Some (float_sub c2 c1 < to_double (threshold_difference st))
       \<and> current_difference (get_status st) = Some (float_sub c2 c1)
       \<and> (float_sub c2 c1 = to_double (threshold_difference st)
            \<longrightarrow> is_abnormal (get_status st) = Some False)
       \<and> is_abnormal (get_status (st\<lparr>threshold_difference := 10,
            current_temperatures := \<lparr>channel1 = Some 5, channel2 = Some 14.99\<rparr>\<rparr>)) = Some True
       \<and> is_abnormal (get_status (st\<lparr>threshold_difference := 10,
            current_temperatures := \<lparr>channel1 = Some 5, channel2 = Some 15\<rparr>\<rparr>)) = Some False"
  using assms
  by (simp add: get_status_is_abnormal get_status_current_difference float_sub_examples)

theorem abnormal_iff_float_sub_below_threshold_witness:
  "channel1 (current_temperatures station1) = Some 5
   \<and> channel2 (current_temperatures station1) = Some 14.99
   \<and> threshold_difference station1 = 10
   \<and> is_abnormal (get_status station1) = Some True
   \<and> current_difference (get_status station1)
       = Some (5623870034678907 / 562949953421312)"
proof -
  have c1: "channel1 (current_temperatures station1) = Some 5"
    by (simp add: station1_def)
  have c2: "channel2 (current_temperatures station1) = Some 14.99"
    by (simp add: station1_def)
  have thr: "threshold_difference station1 = 10"
    by (simp add: station1_def station0_def TemperatureStation_def)
  note outcome = abnormal_iff_float_sub_below_threshold [OF c1 c2]
  from outcome have "is_abnormal (get_status station1) = Some True"
    by (simp add: thr float_sub_examples)
  moreover from outcome
  have "current_difference (get_status station1) = Some (5623870034678907 / 562949953421312)"
    by (simp add: float_sub_examples)
  ultimately show ?thesis using c1 c2 thr by simp
qed

text \<open>
  Claim C5, as the specification states it: with a channel absent, both the current
  difference and the abnormal flag are null. The fresh station has no current
  temperature and its abnormal flag is \<open>False\<close>, not null.
\<close>

theorem absent_channel_status_counterexample:
  "channel1 (current_temperatures station0) = None
   \<and> \<not> (current_difference (get_status station0) = None
        \<and> is_abnormal (get_status station0) = None)"
  by (simp add: get_status_is_abnormal station0_def TemperatureStation_def)

text \<open>
  Claim C5, amended. With at least one current temperature absent, \<open>get_status\<close> returns
  null for the current difference and \<open>False\<close> for the abnormal flag.
\<close>

theorem absent_channel_status:
  assumes "channel1 (current_temperatures st) = None \<or> channel2 (current_temperatures st) = None"
  shows "current_difference (get_status st) = None \<and> is_abnormal (get_status st) = Some False"
  using assms
  by (auto simp add: get_status_is_abnormal get_status_current_difference split: option.splits)

theorem absent_channel_status_witness:
  "channel1 (current_temperatures station0) = None
   \<and> current_difference (get_status station0) = None
   \<and> is_abnormal (get_status station0) = Some False"
  using absent_channel_status [of station0]
  by (simp add: station0_def TemperatureStation_def)

section \<open>Starting and stopping\<close>

text \<open>
  Claim C7. Starting a stopped station empties the history and resets both current
  temperatures to absent, and sets the running flag: right after the start
  \<open>get_temperature_history\<close> returns the empty list. In particular a stop followed by a
  start leaves no history, whatever the station held.
\<close>

theorem start_clears_history:
  assumes "\<not> is_running st"
  shows "temperature_history (start_detection st) = []
       \<and> current_temperatures (start_detection st) = \<lparr>channel1 = None, channel2 = None\<rparr>
       \<and> get_temperature_history (start_detection st) = []
       \<and> is_running (start_detection st)
       \<and> get_temperature_history (start_detection (stop_detection st')) = []"
  using assms
  by (simp add: start_detection_def stop_detection_def get_temperature_history_def)

theorem start_clears_history_witness:
  "\<not> is_running station1 \<and> temperature_history station1 \<noteq> []
   \<and> get_temperature_history (start_detection station1) = []
   \<and> current_temperatures (start_detection station1) = \<lparr>channel1 = None, channel2 = None\<rparr>"
  using start_clears_history [of station1]
  by (simp add: station1_def station0_def TemperatureStation_def)

text \<open>The running flag is written by start and stop only.\<close>

lemma acquire_is_running: "is_running (snd (acquire st io)) = is_running st"
  by (simp add: acquire_def Let_def split: bool.splits option.splits prod.splits)

lemma update_history_is_running: "is_running (update_history st temps ts) = is_running st"
  by (simp add: update_history_def Let_def split: option.splits)

lemma detection_cycle_is_running: "is_running (detection_cycle st io) = is_running st"
proof -
  obtain temps st1 where a: "acquire st io = (temps, st1)" by (cases "acquire st io")
  from acquire_is_running [of st io] a have "is_running st1 = is_running st" by simp
  with a show ?thesis by (simp add: detection_cycle_def update_history_is_running)
qed

text \<open>
  One thread polls while the flag is set and none is left over: this holds after every
  event of an orderly sequence except between a stop and the end of its thread, where
  the one thread is still alive.
\<close>

lemma step_one_task:
  assumes "tasks s \<le> 1" and "is_running (station_of s) \<longrightarrow> tasks s = 1"
    and "case e of Start \<Rightarrow> is_running (station_of s) \<or> tasks s = 0 | _ \<Rightarrow> True"
  shows "tasks (step s e) \<le> 1
       \<and> (is_running (station_of (step s e)) \<longrightarrow> tasks (step s e) = 1)"
  using assms
  by (cases e)
     (auto simp add: start_detection_def stop_detection_def detection_cycle_is_running)

lemma run_one_task:
  assumes "orderly s es" and "tasks s \<le> 1" and "is_running (station_of s) \<longrightarrow> tasks s = 1"
  shows "tasks (run s es) \<le> 1
       \<and> (is_running (station_of (run s es)) \<longrightarrow> tasks (run s es) = 1)"
  using assms
proof (induction es arbitrary: s)
  case Nil
  then show ?case by (simp add: run_def)
next
  case (Cons e es)
  from Cons.prems have e: "case e of Start \<Rightarrow> is_running (station_of s) \<or> tasks s = 0 | _ \<Rightarrow> True"
    and rest: "orderly (step s e) es" by simp_all
  from step_one_task [OF Cons.prems(2) Cons.prems(3) e]
  have "tasks (step s e) \<le> 1"
    and "is_running (station_of (step s e)) \<longrightarrow> tasks (step s e) = 1" by simp_all
  from Cons.IH [OF rest this] show ?case by (simp add: run_def)
qed

lemma orderly_take: "orderly s es \<Longrightarrow> orderly s (take k es)"
proof (induction es arbitrary: s k)
  case Nil
  then show ?case by simp
next
  case (Cons e es)
  then show ?case by (cases k) simp_all
qed

lemma step_not_stop_running:
  assumes "is_running (station_of s)" and "e \<noteq> Stop"
  shows "is_running (station_of (step s e))"
  using assms by (cases e) (simp_all add: detection_cycle_is_running)

lemma orderly_without_stop:
  assumes "is_running (station_of s)" and "Stop \<notin> set es"
  shows "orderly s es"
  using assms
proof (induction es arbitrary: s)
  case Nil
  then show ?case by simp
next
  case (Cons e es)
  from Cons.prems have "e \<noteq> Stop" and "Stop \<notin> set es" by auto
  with Cons.prems(1) Cons.IH [of "step s e"] step_not_stop_running [of s e]
  show ?case by (cases e) simp_all
qed

text \<open>
  Claim C8, as the specification states it: a start on a running station starts no
  second polling thread, so that a station has at most one polling thread at any time.
  The first half holds; the conclusion does not follow. \<open>stop_detection\<close> clears the
  flag and waits one second for the thread; when the wait times out the thread is
  still alive, in the body of its loop. The next start finds the flag cleared, sets
  it and starts a second thread; the first thread then finds the flag set at its loop
  test and goes on. From the fresh station, start, stop and start leave two polling
  threads, and no loop test ends either of them.
\<close>

theorem one_polling_task_counterexample:
  "tasks system0 = 0
   \<and> tasks (run system0 [Start, Stop, Start]) = 2
   \<and> is_running (station_of (run system0 [Start, Stop, Start]))
   \<and> tasks (run system0 [Start, Stop, Start, Loop_test, Loop_test]) = 2"
  by (simp add: run_def system0_def station0_def TemperatureStation_def
        start_detection_def stop_detection_def)

text \<open>
  Claim C8, amended. A start on a running station changes nothing: the history, the
  current temperatures, the running flag and the thread object are the ones before
  the call, and no polling thread is started. A running station with its one polling
  thread has exactly one after any sequence of starts, polling cycles and loop tests
  without a stop, and at most one at every moment of an orderly sequence, in which no
  start falls between a stop and the end of the thread that was stopped; so has a
  station from its construction on.
\<close>

theorem start_when_running_noop:
  assumes "is_running st"
  shows "start_detection st = st
       \<and> step \<lparr>station_of = st, tasks = n\<rparr> Start = \<lparr>station_of = st, tasks = n\<rparr>
       \<and> (Stop \<notin> set es \<longrightarrow> tasks (run \<lparr>station_of = st, tasks = 1\<rparr> es) = 1)
       \<and> (orderly \<lparr>station_of = st, tasks = 1\<rparr> es
            \<longrightarrow> tasks (run \<lparr>station_of = st, tasks = 1\<rparr> (take k es)) \<le> 1)
       \<and> (orderly \<lparr>station_of = TemperatureStation sid nm thr use_real port opn rd,
                    tasks = 0\<rparr> es
            \<longrightarrow> tasks (run \<lparr>station_of = TemperatureStation sid nm thr use_real port opn rd,
                             tasks = 0\<rparr> (take k es)) \<le> 1)"
proof -
  let ?s = "\<lparr>station_of = st, tasks = 1\<rparr>"
  let ?f = "\<lparr>station_of = TemperatureStation sid nm thr use_real port opn rd, tasks = 0\<rparr>"
  have noop: "start_detection st = st"
    using assms by (simp add: start_detection_def)
  have stay: "step \<lparr>station_of = st, tasks = n\<rparr> Start = \<lparr>station_of = st, tasks = n\<rparr>"
    using assms by simp
  have one: "tasks (run ?s es) = 1" if free: "Stop \<notin> set es"
  proof -
    have running: "is_running (station_of ?s)" using assms by simp
    have ord: "orderly ?s es" by (rule orderly_without_stop [OF running free])
    have "is_running (station_of (run ?s es))"
      using running free
    proof (induction es arbitrary: st rule: rev_induct)
      case Nil
      then show ?case by (simp add: run_def)
    next
      case (snoc e es)
      then have "is_running (station_of (run \<lparr>station_of = st, tasks = 1\<rparr> es))" by simp
      moreover from snoc.prems have "e \<noteq> Stop" by auto
      ultimately show ?case
        using step_not_stop_running [of "run \<lparr>station_of = st, tasks = 1\<rparr> es" e]
        by (simp add: run_def)
    qed
    with run_one_task [OF ord] running show ?thesis by simp
  qed
  have most: "tasks (run ?s (take k es)) \<le> 1" if ord: "orderly ?s es"
    using run_one_task [OF orderly_take [OF ord, of k]] by simp
  have fresh: "\<not> is_running (station_of ?f)"
    by (simp add: TemperatureStation_def Let_def split: prod.splits)
  have first: "tasks (run ?f (take k es)) \<le> 1" if ord: "orderly ?f es"
    using run_one_task [OF orderly_take [OF ord, of k]] fresh by simp
  from noop stay one most first show ?thesis by blast
qed

theorem start_when_running_noop_witness:
  "is_running (start_detection station1)
   \<and> start_detection (start_detection station1) = start_detection station1
   \<and> thread (start_detection (start_detection station1)) = Some 0
   \<and> Stop \<notin> set [Start, Loop_test, Start]
   \<and> tasks (run \<lparr>station_of = start_detection station1, tasks = 1\<rparr>
        [Start, Loop_test, Start]) = 1
   \<and> orderly \<lparr>station_of = start_detection station1, tasks = 1\<rparr>
        [Start, Stop, Loop_test, Start]
   \<and> tasks (run \<lparr>station_of = start_detection station1, tasks = 1\<rparr>
        (take 4 [Start, Stop, Loop_test, Start])) \<le> 1"
proof -
  have running: "is_running (start_detection station1)"
    by (simp add: start_detection_def station1_def station0_def TemperatureStation_def)
  have serial: "thread (start_detection station1) = Some 0"
    by (simp add: start_detection_def station1_def station0_def TemperatureStation_def)
  have free: "Stop \<notin> set [Start, Loop_test, Start]" by simp
  have ord: "orderly \<lparr>station_of = start_detection station1, tasks = 1\<rparr>
      [Start, Stop, Loop_test, Start]"
    by (simp add: running stop_detection_def)
  note unstopped = start_when_running_noop
    [OF running, of 1 "[Start, Loop_test, Start]" 0 0 "[]" 0 False "[]" None "\<lambda>a. Inr 0"]
  note stopped = start_when_running_noop
    [OF running, of 1 "[Start, Stop, Loop_test, Start]" 4 0 "[]" 0 False "[]" None
       "\<lambda>a. Inr 0"]
  from unstopped have noop: "start_detection (start_detection station1) = start_detection station1"
    by (rule conjunct1)
  from unstopped free
  have one: "tasks (run \<lparr>station_of = start_detection station1, tasks = 1\<rparr>
      [Start, Loop_test, Start]) = 1"
    by blast
  from stopped ord
  have most: "tasks (run \<lparr>station_of = start_detection station1, tasks = 1\<rparr>
      (take 4 [Start, Stop, Loop_test, Start])) \<le> 1"
    by blast
  from running noop serial free one ord most show ?thesis by simp
qed

section \<open>The polling cycle\<close>

lemma read_all_temperatures_channels:
  "channel1 (fst (read_all_temperatures s io1 io2)) = fst (read_temperature s io1 1)
   \<and> channel2 (fst (read_all_temperatures s io1 io2)) =
       fst (read_temperature (snd (read_temperature s io1 1)) io2 2)
   \<and> snd (read_all_temperatures s io1 io2) =
       snd (read_temperature (snd (read_temperature s io1 1)) io2 2)"
  by (simp add: read_all_temperatures_def split: prod.splits)

lemma acquire_history:
  "temperature_history (snd (acquire st io)) = temperature_history st"
  by (simp add: acquire_def Let_def split: prod.splits bool.splits option.splits)

lemma acquire_present:
  "\<exists>c1 c2. channel1 (fst (acquire st io)) = Some c1 \<and> channel2 (fst (acquire st io)) = Some c2"
  by (auto simp add: acquire_def get_simulated_temperatures_def Let_def
           split: prod.splits bool.splits option.splits)

lemma cycle_reading_length: "length (cycle_reading st io) = 1"
proof -
  obtain temps st1 where a: "acquire st io = (temps, st1)" by (cases "acquire st io")
  from acquire_present [of st io] a obtain c1 c2
    where "channel1 temps = Some c1" "channel2 temps = Some c2" by auto
  with a show ?thesis by (simp add: cycle_reading_def)
qed

lemma detection_cycle_history:
  "temperature_history (detection_cycle st io) =
     (if length (temperature_history st @ cycle_reading st io) > 100
      then tl (temperature_history st @ cycle_reading st io)
      else temperature_history st @ cycle_reading st io)"
proof -
  obtain temps st1 where a: "acquire st io = (temps, st1)" by (cases "acquire st io")
  from acquire_history [of st io] a have h: "temperature_history st1 = temperature_history st"
    by simp
  from acquire_present [of st io] a obtain c1 c2
    where c: "channel1 temps = Some c1" "channel2 temps = Some c2" by auto
  show ?thesis
    using a h c
    by (simp add: detection_cycle_def update_history_def cycle_reading_def Let_def)
qed

lemma drop_evicted:
  assumes "length h \<le> 100" and "length r = 1"
  shows "drop (length ((if length (h @ r) > 100 then tl (h @ r) else h @ r) @ rest) - 100)
              ((if length (h @ r) > 100 then tl (h @ r) else h @ r) @ rest)
       = drop (length ((h @ r) @ rest) - 100) ((h @ r) @ rest)"
proof (cases "length (h @ r) > 100")
  case False
  then show ?thesis by simp
next
  case True
  with assms have len: "length h = 100" by simp
  then obtain x xs where hx: "h = x # xs" by (cases h) auto
  with len have "length xs = 99" by simp
  with hx assms(2) show ?thesis by simp
qed

lemma detection_loop_history:
  "length (temperature_history st) \<le> 100 \<Longrightarrow>
   length (temperature_history (detection_loop st ios)) \<le> 100
   \<and> temperature_history (detection_loop st ios) =
       drop (length (temperature_history st @ appended_readings st ios) - 100)
            (temperature_history st @ appended_readings st ios)"
proof (induction ios arbitrary: st)
  case Nil
  then show ?case by simp
next
  case (Cons io ios)
  show ?case
  proof (cases "is_running st")
    case False
    with Cons.prems show ?thesis by simp
  next
    case True
    let ?h = "temperature_history st"
    let ?r = "cycle_reading st io"
    let ?st' = "detection_cycle st io"
    have r1: "length ?r = 1" by (rule cycle_reading_length)
    have h': "temperature_history ?st' = (if length (?h @ ?r) > 100 then tl (?h @ ?r) else ?h @ ?r)"
      by (rule detection_cycle_history)
    have bound: "length (temperature_history ?st') \<le> 100"
      using Cons.prems r1 by (simp add: h')
    note ih = Cons.IH [OF bound]
    have "temperature_history ?st' @ appended_readings ?st' ios =
          (if length (?h @ ?r) > 100 then tl (?h @ ?r) else ?h @ ?r) @ appended_readings ?st' ios"
      by (simp only: h')
    then have eq: "drop (length (temperature_history ?st' @ appended_readings ?st' ios) - 100)
                (temperature_history ?st' @ appended_readings ?st' ios)
        = drop (length ((?h @ ?r) @ appended_readings ?st' ios) - 100)
               ((?h @ ?r) @ appended_readings ?st' ios)"
      using drop_evicted [OF Cons.prems r1, of "appended_readings ?st' ios"] by simp
    from True ih eq show ?thesis by simp
  qed
qed

text \<open>
  Claim C1. From a history of at most 100 readings (the constructor and every start
  leave it empty), after any run of polling cycles the history has at most 100 readings
  and is the last 100 of the old history followed by the readings the run appended, in
  the order of their insertion: only the oldest entries are gone. A single cycle appends
  exactly one reading, and removes the head, and nothing else, exactly when the history
  was full.
\<close>

theorem history_bounded_fifo:
  assumes "length (temperature_history st) \<le> 100"
  shows "length (temperature_history (detection_loop st ios)) \<le> 100
       \<and> temperature_history (detection_loop st ios) =
           drop (length (temperature_history st @ appended_readings st ios) - 100)
                (temperature_history st @ appended_readings st ios)
       \<and> length (cycle_reading st io) = 1
       \<and> temperature_history (detection_cycle st io) =
           (if length (temperature_history st) = 100
            then tl (temperature_history st) @ cycle_reading st io
            else temperature_history st @ cycle_reading st io)"
proof -
  have r1: "length (cycle_reading st io) = 1" by (rule cycle_reading_length)
  have step: "temperature_history (detection_cycle st io) =
           (if length (temperature_history st) = 100
            then tl (temperature_history st) @ cycle_reading st io
            else temperature_history st @ cycle_reading st io)"
  proof (cases "length (temperature_history st) = 100")
    case True
    then have "temperature_history st \<noteq> []" by auto
    with True r1 show ?thesis by (simp add: detection_cycle_history)
  next
    case False
    with assms r1 show ?thesis by (simp add: detection_cycle_history)
  qed
  from detection_loop_history [OF assms, of ios] r1 step show ?thesis by simp
qed


theorem history_bounded_fifo_witness:
  "length (temperature_history station_full) \<le> 100
   \<and> length (temperature_history (detection_loop station_full [cycle_sim])) \<le> 100
   \<and> cycle_reading station_full cycle_sim =
       [\<lparr>timestamp = datetime0, channel1_temperature = 13, channel2_temperature = 20\<rparr>]
   \<and> temperature_history (detection_cycle station_full cycle_sim) =
       replicate 99 reading0 @
       [\<lparr>timestamp = datetime0, channel1_temperature = 13, channel2_temperature = 20\<rparr>]"
proof -
  have full: "temperature_history station_full = replicate 100 reading0"
    by (simp add: station_full_def station0_def TemperatureStation_def)
  have bounded: "length (temperature_history station_full) \<le> 100"
    by (simp add: full)
  have appended: "cycle_reading station_full cycle_sim =
       [\<lparr>timestamp = datetime0, channel1_temperature = 13, channel2_temperature = 20\<rparr>]"
    by (simp add: cycle_reading_def acquire_def station_full_def station0_def
          TemperatureStation_def cycle_sim_def get_simulated_temperatures_def
          py_round2_def round_half_even_def Let_def)
  have "tl (replicate 100 reading0) = replicate 99 reading0"
    by (simp add: numeral_eq_Suc)
  with history_bounded_fifo [OF bounded, of "[cycle_sim]" cycle_sim] full appended bounded
  show ?thesis by simp
qed

section \<open>Failover to simulated values\<close>

lemma read_temperature_absent:
  "fst (read_temperature s io channel) = None \<Longrightarrow>
   \<not> is_connected (snd (read_temperature s io channel))
   \<and> last_error (snd (read_temperature s io channel)) \<noteq> None"
  by (auto simp add: read_temperature_def setup_sensor_def Let_def
           split: prod.splits if_splits option.splits sum.splits)

lemma read_temperature_present:
  "fst (read_temperature s io channel) = Some v \<Longrightarrow>
   is_connected (snd (read_temperature s io channel))
   \<and> last_error (snd (read_temperature s io channel)) = None"
  by (auto simp add: read_temperature_def setup_sensor_def Let_def
           split: prod.splits if_splits option.splits sum.splits)

lemma acquire_hardware:
  assumes "use_real_sensor st" and "real_sensor st = Some sensor"
    and "read_all_temperatures sensor (io_channel1 io) (io_channel2 io) = (temps, sensor')"
  shows "fst (acquire st io) =
           (if channel1 temps = None \<or> channel2 temps = None
            then get_simulated_temperatures (uniform1 io) (uniform2 io) else temps)
       \<and> snd (acquire st io) =
           st\<lparr>real_sensor := Some sensor',
              sensor_connection_error :=
                (if \<not> is_connected sensor' then last_error sensor' else None)\<rparr>"
  using assms by (simp add: acquire_def sensor_get_status_def Let_def)

lemma update_history_sensor:
  "real_sensor (update_history st temps ts) = real_sensor st
   \<and> sensor_connection_error (update_history st temps ts) = sensor_connection_error st
   \<and> use_real_sensor (update_history st temps ts) = use_real_sensor st"
  by (simp add: update_history_def Let_def split: option.splits)

lemma update_history_current:
  "channel1 temps = Some c1 \<Longrightarrow> channel2 temps = Some c2 \<Longrightarrow>
   current_temperatures (update_history st temps ts) =
     \<lparr>channel1 = Some (py_round2 c1), channel2 = Some (py_round2 c2)\<rparr>"
  by (simp add: update_history_def Let_def)

text \<open>
  Claim C3, as the specification states it: whenever a channel is absent after
  \<open>read_all\<close>, the status reports \<open>sensor_connected = false\<close> with the error. On a
  connected hardware station whose read of channel 1 fails and whose reconnect and read
  of channel 2 succeed, channel 1 is absent, and the status after the cycle reports the
  sensor as connected, with no error.
\<close>

theorem failover_status_counterexample:
  "use_real_sensor station_hw \<and> real_sensor station_hw = Some sensor0
   \<and> channel1 (fst (read_all_temperatures sensor0 (io_channel1 cycle_reconnect)
                      (io_channel2 cycle_reconnect))) = None
   \<and> sensor_connected (get_status (detection_cycle station_hw cycle_reconnect)) = Some True
   \<and> sensor_error (get_status (detection_cycle station_hw cycle_reconnect)) = None"
  by (simp add: get_status_sensor_connected get_status_sensor_error detection_cycle_def
        update_history_def acquire_def read_all_temperatures_def read_temperature_def
        setup_sensor_def get_simulated_temperatures_def sensor_get_status_def
        station_hw_def TemperatureStation_def RealTemperatureSensor_def sensor0_def
        cycle_reconnect_def io_fail_def io_ok_def Let_def)

text \<open>
  Claim C3, amended. In a polling cycle of a hardware-backed station in which
  \<open>read_all\<close> returns absent for either channel, the station takes the simulated values
  for that cycle, rounds them, makes them the current temperatures and appends them as
  a reading to the history. The status after the cycle reports
  \<open>sensor_connected = false\<close> together with the captured error message if channel 2,
  the last channel read, is absent; if only channel 1 is absent, the reconnect and the
  read of channel 2 succeeded, and the status reports the sensor as connected with no
  error.
\<close>

theorem failover_keeps_history_and_status:
  assumes "use_real_sensor st" and "real_sensor st = Some sensor"
    and "read_all_temperatures sensor (io_channel1 io) (io_channel2 io) = (temps, sensor')"
    and "channel1 temps = None \<or> channel2 temps = None"
  shows "current_temperatures (detection_cycle st io) =
           \<lparr>channel1 = Some (py_round2 (5 + uniform1 io)),
            channel2 = Some (py_round2 (24 + uniform2 io))\<rparr>
       \<and> cycle_reading st io =
           [\<lparr>timestamp = now io, channel1_temperature = py_round2 (5 + uniform1 io),
             channel2_temperature = py_round2 (24 + uniform2 io)\<rparr>]
       \<and> temperature_history (detection_cycle st io) =
           (if length (temperature_history st @ cycle_reading st io) > 100
            then tl (temperature_history st @ cycle_reading st io)
            else temperature_history st @ cycle_reading st io)
       \<and> (channel2 temps = None \<longrightarrow>
            sensor_connected (get_status (detection_cycle st io)) = Some False
            \<and> sensor_error (get_status (detection_cycle st io)) = last_error sensor'
            \<and> last_error sensor' \<noteq> None)
       \<and> (channel2 temps \<noteq> None \<longrightarrow>
            sensor_connected (get_status (detection_cycle st io)) = Some True
            \<and> sensor_error (get_status (detection_cycle st io)) = None)"
proof -
  let ?sim = "get_simulated_temperatures (uniform1 io) (uniform2 io)"
  let ?st1 = "st\<lparr>real_sensor := Some sensor',
                  sensor_connection_error :=
                    (if \<not> is_connected sensor' then last_error sensor' else None)\<rparr>"
  from acquire_hardware [OF assms(1-3)] assms(4)
  have acq: "acquire st io = (?sim, ?st1)"
    by (cases "acquire st io") auto
  have sim1: "channel1 ?sim = Some (5 + uniform1 io)"
    and sim2: "channel2 ?sim = Some (24 + uniform2 io)"
    by (simp_all add: get_simulated_temperatures_def)
  have cyc: "detection_cycle st io = update_history ?st1 ?sim (now io)"
    by (simp add: detection_cycle_def acq)
  have cur: "current_temperatures (detection_cycle st io) =
           \<lparr>channel1 = Some (py_round2 (5 + uniform1 io)),
            channel2 = Some (py_round2 (24 + uniform2 io))\<rparr>"
    by (simp only: cyc update_history_current [OF sim1 sim2])
  have rd: "cycle_reading st io =
           [\<lparr>timestamp = now io, channel1_temperature = py_round2 (5 + uniform1 io),
             channel2_temperature = py_round2 (24 + uniform2 io)\<rparr>]"
    by (simp add: cycle_reading_def acq sim1 sim2)
  have conn: "sensor_connected (get_status (detection_cycle st io)) = Some (is_connected sensor')"
    using assms(1) by (simp add: get_status_sensor_connected cyc update_history_sensor)
  have err: "sensor_error (get_status (detection_cycle st io)) =
               (if \<not> is_connected sensor' then last_error sensor' else None)"
    by (simp add: get_status_sensor_error cyc update_history_sensor)
  let ?s1 = "snd (read_temperature sensor (io_channel1 io) 1)"
  from assms(3) read_all_temperatures_channels [of sensor "io_channel1 io" "io_channel2 io"]
  have c2: "channel2 temps = fst (read_temperature ?s1 (io_channel2 io) 2)"
    and s': "sensor' = snd (read_temperature ?s1 (io_channel2 io) 2)"
    by simp_all
  have down: "\<not> is_connected sensor' \<and> last_error sensor' \<noteq> None" if "channel2 temps = None"
    using that read_temperature_absent [of ?s1 "io_channel2 io" 2] c2 s' by simp
  have up: "is_connected sensor' \<and> last_error sensor' = None" if "channel2 temps \<noteq> None"
  proof -
    from that obtain v where "channel2 temps = Some v" by auto
    with read_temperature_present [of ?s1 "io_channel2 io" 2 v] c2 s' show ?thesis by simp
  qed
  from cur rd detection_cycle_history [of st io] conn err down up
  show ?thesis by auto
qed

theorem failover_keeps_history_and_status_witness:
  "use_real_sensor station_hw \<and> real_sensor station_hw = Some sensor0
   \<and> channel2 (fst (read_all_temperatures sensor0 (io_channel1 cycle_down)
                      (io_channel2 cycle_down))) = None
   \<and> current_temperatures (detection_cycle station_hw cycle_down) =
       \<lparr>channel1 = Some 5, channel2 = Some 24\<rparr>
   \<and> length (temperature_history (detection_cycle station_hw cycle_down)) = 1
   \<and> sensor_connected (get_status (detection_cycle station_hw cycle_down)) = Some False
   \<and> sensor_error (get_status (detection_cycle station_hw cycle_down)) = Some ''timeout''"
proof -
  have hw: "use_real_sensor station_hw" and sens: "real_sensor station_hw = Some sensor0"
    by (simp_all add: station_hw_def TemperatureStation_def setup_sensor_def
          RealTemperatureSensor_def sensor0_def Let_def)
  have rd: "read_all_temperatures sensor0 (io_channel1 cycle_down) (io_channel2 cycle_down) =
      (\<lparr>channel1 = Some 5, channel2 = None\<rparr>,
       sensor0\<lparr>last_error := Some ''timeout'', is_connected := False\<rparr>)"
    by (simp add: read_all_temperatures_def read_temperature_def sensor0_def
          RealTemperatureSensor_def cycle_down_def io_ok_def io_fail_def Let_def)
  have absent: "channel1 \<lparr>channel1 = Some 5, channel2 = None\<rparr> = None
      \<or> channel2 \<lparr>channel1 = Some (5::real), channel2 = None\<rparr> = None"
    by simp
  have hist: "temperature_history station_hw = []"
    by (simp add: station_hw_def TemperatureStation_def Let_def split: prod.splits)
  have r5: "py_round2 5 = 5" and r24: "py_round2 24 = 24"
    by (simp_all add: py_round2_def round_half_even_def Let_def)
  have u: "uniform1 cycle_down = 0" "uniform2 cycle_down = 0"
    by (simp_all add: cycle_down_def)
  from failover_keeps_history_and_status [OF hw sens rd absent] hist r5 r24 u hw sens rd
  show ?thesis by simp
qed

section \<open>Stopping\<close>


lemma export_to_csv_depends:
  "temperature_history st' = temperature_history st \<Longrightarrow> name st' = name st \<Longrightarrow>
   station_id st' = station_id st \<Longrightarrow> export_to_csv st' = export_to_csv st"
  by (simp add: export_to_csv_def)

text \<open>
  Claim C10. Stopping a station leaves the history and the current temperatures as
  they were: it clears the running flag and disconnects the sensor, if there is one.
  After the stop \<open>get_temperature_history\<close> and the export give what they gave before
  it; the history is discarded by the next start.
\<close>

theorem stop_keeps_history:
  "temperature_history (stop_detection st) = temperature_history st
   \<and> current_temperatures (stop_detection st) = current_temperatures st
   \<and> is_running (stop_detection st) = False
   \<and> real_sensor (stop_detection st) = map_option disconnect (real_sensor st)
   \<and> get_temperature_history (stop_detection st) = get_temperature_history st
   \<and> get_current_temperatures (stop_detection st) = get_current_temperatures st
   \<and> export_to_csv (stop_detection st) = export_to_csv st
   \<and> temperature_history (start_detection (stop_detection st)) = []"
proof -
  have "export_to_csv (stop_detection st) = export_to_csv st"
    by (rule export_to_csv_depends) (simp_all add: stop_detection_def)
  then show ?thesis
    by (simp add: stop_detection_def start_detection_def get_temperature_history_def
          get_current_temperatures_def)
qed

section \<open>CSV export: rows and formats\<close>

lemma writerow_append: "writerow out row = out @ writerow [] row"
  by (simp add: writerow_def)

lemma foldl_writerow:
  "foldl (\<lambda>out r. writerow out (f r)) out rs = out @ concat (map (\<lambda>r. writerow [] (f r)) rs)"
proof (induction rs arbitrary: out)
  case Nil
  then show ?case by simp
next
  case (Cons r rs)
  have "foldl (\<lambda>out r. writerow out (f r)) out (r # rs) =
        foldl (\<lambda>out r. writerow out (f r)) (writerow out (f r)) rs"
    by simp
  also have "\<dots> = writerow out (f r) @ concat (map (\<lambda>r. writerow [] (f r)) rs)"
    by (rule Cons.IH)
  also have "\<dots> = out @ concat (map (\<lambda>r. writerow [] (f r)) (r # rs))"
    by (simp add: writerow_append [of out])
  finally show ?case .
qed

lemma is_digit_digit_char: "k < 10 \<Longrightarrow> is_digit (digit_char k)"
  unfolding is_digit_def digit_char_def by (rule nth_mem) simp

lemma is_digit_not_special: "is_digit c \<Longrightarrow> \<not> csv_special c"
  by (auto simp add: is_digit_def csv_special_def)

lemma is_digit_not_point: "is_digit c \<Longrightarrow> c \<noteq> CHR ''.''"
  by (auto simp add: is_digit_def)

lemma str_nat_digits: "\<forall>c \<in> set (str_nat n). is_digit c"
proof (induction n rule: str_nat.induct)
  case (1 n)
  show ?case
  proof (cases "n < 10")
    case True
    then show ?thesis by (subst str_nat.simps) (simp add: is_digit_digit_char)
  next
    case False
    with 1 have "\<forall>c \<in> set (str_nat (n div 10)). is_digit c" by simp
    with False show ?thesis by (subst str_nat.simps) (simp add: is_digit_digit_char)
  qed
qed

lemma str_nat_one: "n < 10 \<Longrightarrow> str_nat n = [digit_char n]"
  by (subst str_nat.simps) simp

lemma str_nat_more: "10 \<le> n \<Longrightarrow> str_nat n = str_nat (n div 10) @ [digit_char (n mod 10)]"
  by (subst str_nat.simps) simp

lemma zfill_two:
  assumes "n < 100"
  shows "\<exists>a b. zfill 2 (str_nat n) = [a, b] \<and> is_digit a \<and> is_digit b"
proof (cases "n < 10")
  case True
  have "is_digit (CHR ''0'')" by (simp add: is_digit_def)
  with True show ?thesis
    by (simp add: str_nat_one zfill_def is_digit_digit_char numeral_2_eq_2)
next
  case False
  with assms have "n div 10 < 10" by simp
  with False show ?thesis
    by (simp add: str_nat_more str_nat_one zfill_def is_digit_digit_char)
qed

lemma zfill_four:
  assumes "1000 \<le> n" and "n \<le> 9999"
  shows "\<exists>a b c d. zfill 4 (str_nat n) = [a, b, c, d]
           \<and> is_digit a \<and> is_digit b \<and> is_digit c \<and> is_digit d"
proof -
  from assms have a: "10 \<le> n" and b: "10 \<le> n div 10" and c: "10 \<le> n div 10 div 10"
    and d: "n div 10 div 10 div 10 < 10"
    by simp_all
  have "str_nat n = [digit_char (n div 10 div 10 div 10), digit_char (n div 10 div 10 mod 10),
                     digit_char (n div 10 mod 10), digit_char (n mod 10)]"
    by (simp add: str_nat_more [OF a] str_nat_more [OF b] str_nat_more [OF c] str_nat_one [OF d])
  then show ?thesis
    using d by (simp add: zfill_def is_digit_digit_char)
qed

lemma strftime_shape:
  assumes "valid_datetime dt"
  shows "timestamp_shape (strftime dt)"
proof -
  from assms obtain y1 y2 y3 y4 where y: "zfill 4 (str_nat (year dt)) = [y1, y2, y3, y4]"
    "is_digit y1" "is_digit y2" "is_digit y3" "is_digit y4"
    using zfill_four [of "year dt"] by (auto simp add: valid_datetime_def)
  from assms obtain m1 m2 where m: "zfill 2 (str_nat (month dt)) = [m1, m2]"
    "is_digit m1" "is_digit m2"
    using zfill_two [of "month dt"] by (auto simp add: valid_datetime_def)
  from assms obtain d1 d2 where d: "zfill 2 (str_nat (day dt)) = [d1, d2]"
    "is_digit d1" "is_digit d2"
    using zfill_two [of "day dt"] by (auto simp add: valid_datetime_def)
  from assms obtain h1 h2 where h: "zfill 2 (str_nat (hour dt)) = [h1, h2]"
    "is_digit h1" "is_digit h2"
    using zfill_two [of "hour dt"] by (auto simp add: valid_datetime_def)
  from assms obtain n1 n2 where n: "zfill 2 (str_nat (minute dt)) = [n1, n2]"
    "is_digit n1" "is_digit n2"
    using zfill_two [of "minute dt"] by (auto simp add: valid_datetime_def)
  from assms obtain s1 s2 where s: "zfill 2 (str_nat (second dt)) = [s1, s2]"
    "is_digit s1" "is_digit s2"
    using zfill_two [of "second dt"] by (auto simp add: valid_datetime_def)
  have "strftime dt = [y1, y2, y3, y4, CHR ''-'', m1, m2, CHR ''-'', d1, d2, CHR '' '',
                       h1, h2, CHR '':'', n1, n2, CHR '':'', s1, s2]"
    by (simp add: strftime_def y(1) m(1) d(1) h(1) n(1) s(1))
  then show ?thesis
    using y(2-) m(2-) d(2-) h(2-) n(2-) s(2-) by (simp add: timestamp_shape_def)
qed

lemma decimals_float_repr:
  "decimals (float_repr x) = 1 \<or> decimals (float_repr x) = 2"
proof -
  let ?c = "nat \<lfloor>\<bar>x\<bar> * 100\<rfloor>"
  let ?frac = "if ?c mod 100 mod 10 = 0 then [digit_char (?c mod 100 div 10)]
               else [digit_char (?c mod 100 div 10), digit_char (?c mod 100 mod 10)]"
  let ?front = "(if x < 0 then ''-'' else []) @ str_nat (?c div 100)"
  have repr: "float_repr x = ?front @ CHR ''.'' # ?frac"
    by (simp add: float_repr_def Let_def)
  have "\<forall>c \<in> set ?front. c \<noteq> CHR ''.''"
    using str_nat_digits [of "?c div 100"] by (auto dest: is_digit_not_point)
  then have "dropWhile (\<lambda>c. c \<noteq> CHR ''.'') (?front @ CHR ''.'' # ?frac) = CHR ''.'' # ?frac"
    by (simp add: dropWhile_append3)
  then have "decimals (float_repr x) = length ?frac"
    by (simp only: repr decimals_def) simp
  then show ?thesis by simp
qed

lemma zfill_digits:
  assumes "\<forall>c \<in> set s. is_digit c"
  shows "\<forall>c \<in> set (zfill w s). is_digit c"
proof -
  have "is_digit (CHR ''0'')" by (simp add: is_digit_def)
  with assms show ?thesis by (auto simp add: zfill_def)
qed

lemma csv_field_plain: "\<forall>c \<in> set s. \<not> csv_special c \<Longrightarrow> csv_field s = s"
  by (simp add: csv_field_def list_ex_iff)

lemma strftime_plain: "csv_field (strftime dt) = strftime dt"
proof (rule csv_field_plain)
  have z: "\<forall>c \<in> set (zfill w (str_nat n)). \<not> csv_special c" for w n
    using zfill_digits [OF str_nat_digits, of w n] by (auto dest: is_digit_not_special)
  have sep: "\<not> csv_special (CHR ''-'')" "\<not> csv_special (CHR '' '')" "\<not> csv_special (CHR '':'')"
    by (simp_all add: csv_special_def)
  show "\<forall>c \<in> set (strftime dt). \<not> csv_special c"
    using z sep by (auto simp add: strftime_def)
qed

lemma float_repr_plain: "csv_field (float_repr x) = float_repr x"
proof (rule csv_field_plain)
  let ?c = "nat \<lfloor>\<bar>x\<bar> * 100\<rfloor>"
  have w: "\<forall>c \<in> set (str_nat (?c div 100)). \<not> csv_special c"
    using str_nat_digits [of "?c div 100"] by (auto dest: is_digit_not_special)
  have d1: "\<not> csv_special (digit_char (?c mod 100 div 10))"
    by (rule is_digit_not_special, rule is_digit_digit_char) simp
  have d2: "\<not> csv_special (digit_char (?c mod 100 mod 10))"
    by (rule is_digit_not_special, rule is_digit_digit_char) simp
  have sep: "\<not> csv_special (CHR ''-'')" "\<not> csv_special (CHR ''.'')"
    by (simp_all add: csv_special_def)
  show "\<forall>c \<in> set (float_repr x). \<not> csv_special c"
    using w d1 d2 sep by (auto simp add: float_repr_def Let_def)
qed

lemma str_int_plain: "csv_field (str_int i) = str_int i"
proof (rule csv_field_plain)
  have w: "\<forall>c \<in> set (str_nat n). \<not> csv_special c" for n
    using str_nat_digits [of n] by (auto dest: is_digit_not_special)
  have sep: "\<not> csv_special (CHR ''-'')" by (simp add: csv_special_def)
  show "\<forall>c \<in> set (str_int i). \<not> csv_special c"
    using w sep by (auto simp add: str_int_def)
qed

lemma header_row:
  "writerow []
     [CsvStr ''Timestamp'', CsvStr ''Channel1_Temperature_Celsius'',
      CsvStr ''Channel2_Temperature_Celsius'', CsvStr ''Station_Name'',
      CsvStr ''Station_ID''] = csv_header @ crlf"
  by (simp add: writerow_def csv_field_def csv_special_def csv_header_def crlf_def)

lemma data_row:
  "writerow []
     [CsvStr (strftime ts), CsvFloat c1, CsvFloat c2, CsvStr nm, CsvInt sid] =
   strftime ts @ '','' @ float_repr c1 @ '','' @ float_repr c2 @ '','' @
   csv_field nm @ '','' @ str_int sid @ crlf"
  by (simp add: writerow_def strftime_plain float_repr_plain str_int_plain crlf_def)

lemma export_to_csv_rows:
  "export_to_csv st =
     csv_header @ crlf @
     concat (map (\<lambda>r. strftime (timestamp r) @ '','' @
                       float_repr (channel1_temperature r) @ '','' @
                       float_repr (channel2_temperature r) @ '','' @
                       csv_field (name st) @ '','' @ str_int (station_id st) @ crlf)
                 (temperature_history st))"
  by (simp add: export_to_csv_def Let_def foldl_writerow header_row data_row)

text \<open>
  Claim C4, as the specification states it: every temperature of an exported row has
  exactly two decimal places. A hardware-backed station that reads 5.0 and 15.0 in a
  polling cycle exports them as \<open>5.0\<close> and \<open>15.0\<close>, with one decimal place.
\<close>

theorem export_two_decimals_counterexample:
  "export_to_csv (detection_cycle station_hw cycle_ok) =
     csv_header @ crlf @ ''2024-01-02 03:04:05,5.0,15.0,Temperature Station,1'' @ crlf
   \<and> decimals (float_repr (py_round2 5)) = 1"
proof -
  have r5: "py_round2 5 = 5" and r15: "py_round2 15 = 15"
    by (simp_all add: py_round2_def round_half_even_def Let_def)
  have acq: "fst (acquire station_hw cycle_ok) = \<lparr>channel1 = Some 5, channel2 = Some 15\<rparr>"
    by (simp add: acquire_def read_all_temperatures_def read_temperature_def
          setup_sensor_def sensor_get_status_def station_hw_def TemperatureStation_def
          RealTemperatureSensor_def cycle_ok_def io_ok_def Let_def)
  have nw: "now cycle_ok = datetime0"
    by (simp add: cycle_ok_def)
  have rd: "cycle_reading station_hw cycle_ok =
      [\<lparr>timestamp = datetime0, channel1_temperature = 5, channel2_temperature = 15\<rparr>]"
  proof -
    obtain temps st1 where a: "acquire station_hw cycle_ok = (temps, st1)"
      by (cases "acquire station_hw cycle_ok")
    with acq have "temps = \<lparr>channel1 = Some 5, channel2 = Some 15\<rparr>" by simp
    with a show ?thesis by (simp add: cycle_reading_def r5 r15 nw)
  qed
  have h0: "temperature_history station_hw = []"
    by (simp add: station_hw_def TemperatureStation_def Let_def split: prod.splits)
  have hist: "temperature_history (detection_cycle station_hw cycle_ok) =
      [\<lparr>timestamp = datetime0, channel1_temperature = 5, channel2_temperature = 15\<rparr>]"
    by (simp add: detection_cycle_history rd h0)
  have acq2: "name (snd (acquire station_hw cycle_ok)) = ''Temperature Station''
      \<and> station_id (snd (acquire station_hw cycle_ok)) = 1"
    by (simp add: acquire_def station_hw_def TemperatureStation_def Let_def
          split: prod.splits)
  have upd: "name (update_history st temps ts) = name st
      \<and> station_id (update_history st temps ts) = station_id st" for st temps ts
    by (simp add: update_history_def Let_def split: option.splits)
  have nm: "name (detection_cycle station_hw cycle_ok) = ''Temperature Station''"
    and sid: "station_id (detection_cycle station_hw cycle_ok) = 1"
    using acq2 by (simp_all add: detection_cycle_def upd case_prod_beta)
  have t: "strftime datetime0 = ''2024-01-02 03:04:05''"
    by (simp add: strftime_def datetime0_def zfill_def str_nat.simps digit_char_def)
  have f1: "float_repr 5 = ''5.0''" and f2: "float_repr 15 = ''15.0''"
    by (simp_all add: float_repr_def str_nat.simps digit_char_def Let_def)
  have i: "str_int 1 = ''1''"
    by (simp add: str_int_def str_nat.simps digit_char_def)
  have n: "csv_field ''Temperature Station'' = ''Temperature Station''"
    by (simp add: csv_field_def csv_special_def)
  have e: "export_to_csv (detection_cycle station_hw cycle_ok) =
     csv_header @ crlf @ ''2024-01-02 03:04:05,5.0,15.0,Temperature Station,1'' @ crlf"
    by (simp add: export_to_csv_rows hist nm sid t f1 f2 i n)
  have d: "decimals (float_repr (py_round2 5)) = 1"
    by (simp add: r5 f1 decimals_def)
  from e d show ?thesis by (rule conjI)
qed

text \<open>
  Claim C4, amended. The export of an empty history is exactly the header row
  \<open>Timestamp,Channel1_Temperature_Celsius,Channel2_Temperature_Celsius,Station_Name,Station_ID\<close>.
  The export of a history of N readings is the header row followed by N rows in the
  order of insertion; a row holds the timestamp, the two temperatures, the station name
  (quoted as the writer quotes a text with a comma, a quote or a line break) and the
  station id, and every row ends with carriage return and line feed. A timestamp of a
  four-digit year has the shape \<open>YYYY-MM-DD HH:MM:SS\<close>. A temperature, which was
  rounded to two decimal places when it was stored, is written in its shortest decimal
  form, with one or two decimal places and no padding zero.
\<close>

theorem export_to_csv_format:
  "export_to_csv (st\<lparr>temperature_history := []\<rparr>) = csv_header @ crlf
   \<and> export_to_csv st =
       csv_header @ crlf @
       concat (map (\<lambda>r. strftime (timestamp r) @ '','' @
                         float_repr (channel1_temperature r) @ '','' @
                         float_repr (channel2_temperature r) @ '','' @
                         csv_field (name st) @ '','' @ str_int (station_id st) @ crlf)
                   (temperature_history st))
   \<and> (valid_datetime dt \<longrightarrow> timestamp_shape (strftime dt))
   \<and> (decimals (float_repr (py_round2 x)) = 1 \<or> decimals (float_repr (py_round2 x)) = 2)"
proof -
  have empty: "export_to_csv (st\<lparr>temperature_history := []\<rparr>) = csv_header @ crlf"
    by (simp add: export_to_csv_rows)
  have shape: "valid_datetime dt \<longrightarrow> timestamp_shape (strftime dt)"
    by (simp add: strftime_shape)
  from empty export_to_csv_rows [of st] shape decimals_float_repr [of "py_round2 x"]
  show ?thesis by (intro conjI)
qed

theorem export_to_csv_format_witness:
  "valid_datetime datetime0
   \<and> timestamp_shape (strftime datetime0)
   \<and> strftime datetime0 = ''2024-01-02 03:04:05''
   \<and> export_to_csv (station1\<lparr>temperature_history := []\<rparr>) = csv_header @ crlf
   \<and> export_to_csv station1 =
       csv_header @ crlf @ ''2024-01-02 03:04:05,5.0,14.99,Temperature Station,1'' @ crlf"
proof -
  have v: "valid_datetime datetime0"
    by (simp add: valid_datetime_def datetime0_def)
  have t: "strftime datetime0 = ''2024-01-02 03:04:05''"
    by (simp add: strftime_def datetime0_def zfill_def str_nat.simps digit_char_def)
  have f1: "float_repr 5 = ''5.0''" and f2: "float_repr 14.99 = ''14.99''"
    by (simp_all add: float_repr_def str_nat.simps digit_char_def Let_def)
  have i: "str_int 1 = ''1''"
    by (simp add: str_int_def str_nat.simps digit_char_def)
  have n: "csv_field ''Temperature Station'' = ''Temperature Station''"
    by (simp add: csv_field_def csv_special_def)
  have st: "temperature_history station1 = [reading0]" "name station1 = ''Temperature Station''"
    "station_id station1 = 1"
    by (simp_all add: station1_def station0_def TemperatureStation_def)
  from export_to_csv_format [of station1 datetime0 5] v t f1 f2 i n st
  show ?thesis by (simp add: reading0_def)
qed

end
